theory Spec2Isabelle
  imports Main
begin

section \<open>The wallet adapter of \<open>web3.service.ts\<close>\<close>

text \<open>
  The service keeps five last-value-cached subjects and talks to the injected provider
  \<open>window.ethereum\<close>. The embedding below passes the five cached values around as a record,
  makes every \<open>throw\<close> a value of a sum type, and hands the provider to each action as an
  argument (\<open>None\<close> when \<open>window.ethereum\<close> is absent at the time of the call). Each
  routine is given twice: as the state it ends in, and as the sequence of single writes
  (\<open>next\<close> calls) it makes, which subscribers see one by one; the two are proved to agree.
\<close>

subsection \<open>JavaScript values and truthiness\<close>

text \<open>
  The values the code tests with \<open>||\<close>, \<open>&&\<close>, \<open>? :\<close> and \<open>===\<close>. Numbers are the
  integers (an error code is one); \<open>JsObject\<close> stands for any object.
\<close>

datatype js_value =
    JsUndefined
  | JsNull
  | JsBoolean bool
  | JsNumber int
  | JsString string
  | JsObject

fun truthy :: "js_value \<Rightarrow> bool" where
  "truthy JsUndefined = False"
| "truthy JsNull = False"
| "truthy (JsBoolean b) = b"
| "truthy (JsNumber n) = (n \<noteq> 0)"
| "truthy (JsString s) = (s \<noteq> [])"
| "truthy JsObject = True"

text \<open>
  A value of TypeScript type \<open>string | null | undefined\<close> is a \<open>string option\<close>, \<open>None\<close> for
  both \<open>null\<close> and \<open>undefined\<close>. The empty string is falsy: \<open>s ? f(s) : d\<close> is
  \<open>cond_str s f d\<close> and \<open>s || null\<close> is \<open>or_null s\<close>.
\<close>

definition cond_str :: "string option \<Rightarrow> (string \<Rightarrow> 'a) \<Rightarrow> 'a \<Rightarrow> 'a" where
  "cond_str s f d = (case s of None \<Rightarrow> d | Some c \<Rightarrow> if c \<noteq> [] then f c else d)"

definition or_null :: "string option \<Rightarrow> string option" where
  "or_null s = cond_str s Some None"

subsection \<open>Property lookup on an object literal\<close>

text \<open>
  \<open>CHAIN_NAME_MAP[cid]\<close> and \<open>CHAIN_PARAMS[target]\<close> are property reads on object literals.
  A read finds the literal's own entry, or else a member inherited from
  \<open>Object.prototype\<close> (a function, or the prototype object itself for \<open>__proto__\<close>), or
  else nothing (\<open>undefined\<close>). Every inherited member is truthy.
\<close>

datatype 'a or_builtin = Plain 'a | Builtin string

definition OBJECT_PROTOTYPE_KEYS :: "string list" where
  "OBJECT_PROTOTYPE_KEYS =
     [''constructor'', ''hasOwnProperty'', ''isPrototypeOf'', ''propertyIsEnumerable'',
      ''toLocaleString'', ''toString'', ''valueOf'', ''__proto__'',
      ''__defineGetter__'', ''__defineSetter__'', ''__lookupGetter__'', ''__lookupSetter__'']"

definition record_get :: "(string \<times> 'a) list \<Rightarrow> string \<Rightarrow> 'a or_builtin option" where
  "record_get r k =
     (case map_of r k of
        Some v \<Rightarrow> Some (Plain v)
      | None \<Rightarrow> if k \<in> set OBJECT_PROTOTYPE_KEYS then Some (Builtin k) else None)"

subsection \<open>The module constants\<close>

definition SUPPORTED_CHAIN_IDS :: "string list" where
  "SUPPORTED_CHAIN_IDS = [''0x1'', ''0x5'', ''0xaa36a7'', ''0x89'']"

definition CHAIN_NAME_MAP :: "(string \<times> string) list" where
  "CHAIN_NAME_MAP =
     [(''0x1'', ''Ethereum Mainnet''),
      (''0x3'', ''Ropsten''),
      (''0x4'', ''Rinkeby''),
      (''0x5'', ''Goerli''),
      (''0xaa36a7'', ''Sepolia''),
      (''0x89'', ''Polygon'')]"

datatype native_currency =
  NativeCurrency (currency_name: string) (symbol: string) (decimals: nat)

datatype chain_params =
  ChainParams (params_chainId: string) (chainName: string)
    (nativeCurrency: native_currency) (rpcUrls: "string list")
    (blockExplorerUrls: "string list")

definition CHAIN_PARAMS :: "(string \<times> chain_params) list" where
  "CHAIN_PARAMS =
     [(''0x1'', ChainParams ''0x1'' ''Ethereum Mainnet''
         (NativeCurrency ''Ether'' ''ETH'' 18)
         [''https://mainnet.infura.io/v3/''] [''https://etherscan.io'']),
      (''0x5'', ChainParams ''0x5'' ''Goerli''
         (NativeCurrency ''Goerli Ether'' ''GOR'' 18)
         [''https://rpc.ankr.com/eth_goerli''] [''https://goerli.etherscan.io'']),
      (''0xaa36a7'', ChainParams ''0xaa36a7'' ''Sepolia''
         (NativeCurrency ''Sepolia Ether'' ''SEP'' 18)
         [''https://rpc.sepolia.org''] [''https://sepolia.etherscan.io'']),
      (''0x89'', ChainParams ''0x89'' ''Polygon''
         (NativeCurrency ''MATIC'' ''MATIC'' 18)
         [''https://polygon-rpc.com/''] [''https://polygonscan.com/''])]"

subsection \<open>The observable state\<close>

text \<open>
  One field per \<open>BehaviorSubject\<close>, holding its current value. \<open>networkName\<close> holds what
  the chain-update routine emits: a string, or a member of \<open>Object.prototype\<close> when the
  lookup in \<open>CHAIN_NAME_MAP\<close> found one.
\<close>

record wallet_state =
  address :: "string option"
  chainId :: "string option"
  networkName :: "string or_builtin option"
  isSupportedNetwork :: bool
  isMetaMaskInstalled :: bool

text \<open>The field initialisers of the class.\<close>

definition initial_state :: wallet_state where
  "initial_state =
     \<lparr>address = None, chainId = None, networkName = None,
      isSupportedNetwork = True, isMetaMaskInstalled = False\<rparr>"

subsection \<open>The internal update routines\<close>

definition normalizeAddress :: "string \<Rightarrow> string" where
  "normalizeAddress a = a"

text \<open>
  \<open>accounts && accounts.length > 0 ? accounts[0] : null\<close>, then
  \<open>addr ? this._normalizeAddress(addr) : null\<close>.
\<close>

definition handleAccountsChanged :: "string list option \<Rightarrow> wallet_state \<Rightarrow> wallet_state" where
  "handleAccountsChanged accounts st =
     (let addr = (case accounts of
                    None \<Rightarrow> None
                  | Some [] \<Rightarrow> None
                  | Some (a # _) \<Rightarrow> Some a)
      in st\<lparr>address := cond_str addr (\<lambda>a. Some (normalizeAddress a)) None\<rparr>)"

text \<open>
  \<open>CHAIN_NAME_MAP[cid] || `Chain ${cid}`\<close>: the looked-up value when it is truthy, the
  synthesized string otherwise.
\<close>

definition chain_name :: "string \<Rightarrow> string or_builtin" where
  "chain_name cid =
     (case record_get CHAIN_NAME_MAP cid of
        Some (Plain n) \<Rightarrow> if n \<noteq> [] then Plain n else Plain (''Chain '' @ cid)
      | Some (Builtin k) \<Rightarrow> Builtin k
      | None \<Rightarrow> Plain (''Chain '' @ cid))"

text \<open>
  A call \<open>subject.next(v)\<close>: the subject written and the value it now holds. Subscribers
  are notified inside the call, so the state after each single write is one they see.
\<close>

datatype emission =
    AddressNext "string option"
  | ChainIdNext "string option"
  | NetworkNameNext "string or_builtin option"
  | IsSupportedNetworkNext bool
  | IsMetaMaskInstalledNext bool

fun emit :: "emission \<Rightarrow> wallet_state \<Rightarrow> wallet_state" where
  "emit (AddressNext v) st = st\<lparr>address := v\<rparr>"
| "emit (ChainIdNext v) st = st\<lparr>chainId := v\<rparr>"
| "emit (NetworkNameNext v) st = st\<lparr>networkName := v\<rparr>"
| "emit (IsSupportedNetworkNext v) st = st\<lparr>isSupportedNetwork := v\<rparr>"
| "emit (IsMetaMaskInstalledNext v) st = st\<lparr>isMetaMaskInstalled := v\<rparr>"

text \<open>
  \<open>_handleChainChanged\<close> makes three writes, in this order: \<open>chainId$.next(cid)\<close>,
  \<open>isSupportedNetwork$.next(supported)\<close>, \<open>networkName$.next(name)\<close>.
\<close>

definition chain_emissions :: "string option \<Rightarrow> emission list" where
  "chain_emissions c =
     (let cid = or_null c;
          supported = cond_str cid (\<lambda>x. x \<in> set SUPPORTED_CHAIN_IDS) False;
          name = cond_str cid (\<lambda>x. Some (chain_name x)) None
      in [ChainIdNext cid, IsSupportedNetworkNext supported, NetworkNameNext name])"

definition handleChainChanged :: "string option \<Rightarrow> wallet_state \<Rightarrow> wallet_state" where
  "handleChainChanged c st = fold emit (chain_emissions c) st"

subsection \<open>Errors\<close>

text \<open>
  What a \<open>catch\<close> receives. \<open>JsError m c d\<close> is an object with a message, a \<open>code\<close>
  property (\<open>JsUndefined\<close> when it has none) and a \<open>data\<close> property: \<open>None\<close> when
  \<open>err.data\<close> is falsy, \<open>Some v\<close> when it is an object whose own \<open>code\<close> is \<open>v\<close>.
  \<open>Thrown v\<close> is any other thrown value (\<open>throw null\<close>, \<open>throw "x"\<close>), which has neither
  property.
\<close>

datatype js_error =
    JsError (message: string) (code: js_value) (data: "js_value option")
  | Thrown js_value

text \<open>\<open>new Error(msg)\<close>.\<close>

definition new_Error :: "string \<Rightarrow> js_error" where
  "new_Error msg = JsError msg JsUndefined None"

text \<open>
  \<open>err && (err.code || (err.data && err.data.code))\<close>. A falsy \<open>err\<close> is the value of
  the whole expression; a falsy \<open>err.data\<close> would be too, and is read as \<open>JsUndefined\<close>
  (it is compared with \<open>4902\<close> only, which no falsy value equals).
\<close>

fun error_code :: "js_error \<Rightarrow> js_value" where
  "error_code (JsError m c d) =
     (if truthy c then c else (case d of None \<Rightarrow> JsUndefined | Some dc \<Rightarrow> dc))"
| "error_code (Thrown v) = (if truthy v then JsUndefined else v)"

subsection \<open>The injected provider\<close>

text \<open>
  The two events the service subscribes to in \<open>_init\<close>, with the argument the provider
  passes to the handler.
\<close>

datatype event =
    AccountsChanged "string list option"
  | ChainChanged "string option"

fun handle_event :: "event \<Rightarrow> wallet_state \<Rightarrow> wallet_state" where
  "handle_event (AccountsChanged accounts) st = handleAccountsChanged accounts st"
| "handle_event (ChainChanged c) st = handleChainChanged c st"

definition deliver :: "event list \<Rightarrow> wallet_state \<Rightarrow> wallet_state" where
  "deliver evs st = fold handle_event evs st"

datatype request =
    Eth_requestAccounts
  | Eth_chainId
  | Wallet_switchEthereumChain "string option"
  | Wallet_addEthereumChain "chain_params or_builtin"

text \<open>
  An \<open>await w.ethereum.request(...)\<close> suspends the action. While it is suspended the
  provider may call the two handlers; then the request resolves (\<open>Inr\<close>) or rejects
  (\<open>Inl\<close>). A reply is the list of events handled meanwhile, in order, and the outcome.
\<close>

type_synonym 'a reply = "event list \<times> (js_error + 'a)"

text \<open>
  \<open>window.ethereum\<close>: the two synchronous properties \<open>_init\<close> reads, and what \<open>request\<close>
  answers to each of the four methods the service calls.
\<close>

record provider =
  ethereum_chainId :: "string option"
  selectedAddress :: "string option"
  eth_requestAccounts :: "string list option reply"
  eth_chainId :: "string option reply"
  wallet_switchEthereumChain :: "string option \<Rightarrow> unit reply"
  wallet_addEthereumChain :: "chain_params or_builtin \<Rightarrow> unit reply"

subsection \<open>Construction\<close>

definition init :: "provider option \<Rightarrow> wallet_state \<Rightarrow> wallet_state" where
  "init w st =
     (case w of
        Some eth \<Rightarrow>
          (let st1 = st\<lparr>isMetaMaskInstalled := True\<rparr>;
               st2 = cond_str (ethereum_chainId eth)
                       (\<lambda>c. handleChainChanged (Some c) st1) st1;
               addr = or_null (selectedAddress eth)
           in cond_str addr (\<lambda>a. st2\<lparr>address := Some (normalizeAddress a)\<rparr>) st2)
      | None \<Rightarrow> st\<lparr>isMetaMaskInstalled := False\<rparr>)"

text \<open>The constructor: the field initialisers, then \<open>_init\<close>.\<close>

definition construct :: "provider option \<Rightarrow> wallet_state" where
  "construct w = init w initial_state"

subsection \<open>The actions\<close>

text \<open>
  What a call of an action leaves behind: the state, the value returned (\<open>Inr\<close>) or the
  error raised (\<open>Inl\<close>), the requests sent to the provider in order, and what was
  written with \<open>console.error\<close>.
\<close>

record 'a outcome =
  final :: wallet_state
  result :: "js_error + 'a"
  requests :: "request list"
  console :: "js_error list"

definition connect :: "provider option \<Rightarrow> wallet_state \<Rightarrow> string option outcome" where
  "connect w st =
     (case w of
        None \<Rightarrow>
          \<lparr>final = st\<lparr>isMetaMaskInstalled := False\<rparr>,
           result = Inl (new_Error ''MetaMask not installed''),
           requests = [], console = []\<rparr>
      | Some eth \<Rightarrow>
          (case eth_requestAccounts eth of (evs1, r1) \<Rightarrow>
             let st1 = deliver evs1 st in
             (case r1 of
                Inl err \<Rightarrow>
                  \<lparr>final = st1, result = Inl err,
                   requests = [Eth_requestAccounts], console = [err]\<rparr>
              | Inr accounts \<Rightarrow>
                  let st2 = handleAccountsChanged accounts st1 in
                  (case eth_chainId eth of (evs2, r2) \<Rightarrow>
                     let st3 = deliver evs2 st2 in
                     (case r2 of
                        Inl err \<Rightarrow>
                          \<lparr>final = st3, result = Inl err,
                           requests = [Eth_requestAccounts, Eth_chainId], console = [err]\<rparr>
                      | Inr c \<Rightarrow>
                          let st4 = handleChainChanged c st3 in
                          \<lparr>final = st4, result = Inr (address st4),
                           requests = [Eth_requestAccounts, Eth_chainId],
                           console = []\<rparr>)))))"

text \<open>\<open>xs[0]\<close>, which is \<open>undefined\<close> on an empty array.\<close>

definition first :: "'a list \<Rightarrow> 'a option" where
  "first xs = (case xs of [] \<Rightarrow> None | x # _ \<Rightarrow> Some x)"

text \<open>
  \<open>SUPPORTED_CHAIN_IDS.find((id) => id !== current) || SUPPORTED_CHAIN_IDS[0]\<close>, for any
  array in the place of the constant. \<open>None\<close> is \<open>undefined\<close>.
\<close>

definition select_target :: "string list \<Rightarrow> string option \<Rightarrow> string option" where
  "select_target supported current =
     (case cond_str (find (\<lambda>i. Some i \<noteq> current) supported) Some None of
        Some t \<Rightarrow> Some t
      | None \<Rightarrow> first supported)"

text \<open>The property key a value of type \<open>string | undefined\<close> is converted to.\<close>

definition property_key :: "string option \<Rightarrow> string" where
  "property_key t = (case t of Some s \<Rightarrow> s | None \<Rightarrow> ''undefined'')"

text \<open>
  The body of \<open>switchToSupportedNetwork\<close>, with the two module constants it reads as
  parameters.
\<close>

definition switch_with ::
  "string list \<Rightarrow> (string \<times> chain_params) list \<Rightarrow> provider option \<Rightarrow> wallet_state
     \<Rightarrow> unit outcome" where
  "switch_with supported chain_params w st =
     (case w of
        None \<Rightarrow>
          \<lparr>final = st, result = Inl (new_Error ''MetaMask not installed''),
           requests = [], console = []\<rparr>
      | Some eth \<Rightarrow>
          (let current = chainId st;
               target = select_target supported current
           in case wallet_switchEthereumChain eth target of (evs1, r1) \<Rightarrow>
             let st1 = deliver evs1 st in
             (case r1 of
                Inr u \<Rightarrow>
                  \<lparr>final = st1, result = Inr (),
                   requests = [Wallet_switchEthereumChain target], console = []\<rparr>
              | Inl err \<Rightarrow>
                  if error_code err = JsNumber 4902 then
                    (case record_get chain_params (property_key target) of
                       Some params \<Rightarrow>
                         (case wallet_addEthereumChain eth params of (evs2, r2) \<Rightarrow>
                            \<lparr>final = deliver evs2 st1,
                             result = (case r2 of Inl err2 \<Rightarrow> Inl err2 | Inr u \<Rightarrow> Inr ()),
                             requests = [Wallet_switchEthereumChain target,
                                         Wallet_addEthereumChain params],
                             console = []\<rparr>)
                     | None \<Rightarrow>
                         \<lparr>final = st1, result = Inl err,
                          requests = [Wallet_switchEthereumChain target], console = []\<rparr>)
                  else
                    \<lparr>final = st1, result = Inl err,
                     requests = [Wallet_switchEthereumChain target], console = []\<rparr>)))"

definition switchToSupportedNetwork :: "provider option \<Rightarrow> wallet_state \<Rightarrow> unit outcome" where
  "switchToSupportedNetwork w st = switch_with SUPPORTED_CHAIN_IDS CHAIN_PARAMS w st"

definition disconnect :: "wallet_state \<Rightarrow> wallet_state" where
  "disconnect st = st\<lparr>address := None\<rparr>"

text \<open>\<open>ngOnDestroy\<close> completes \<open>_destroy$\<close> and touches none of the five subjects.\<close>

definition ngOnDestroy :: "wallet_state \<Rightarrow> wallet_state" where
  "ngOnDestroy st = st"

subsection \<open>Histories of the service\<close>

text \<open>
  Everything that can happen to a constructed service: a call of one of its public
  methods, with \<open>window.ethereum\<close> as it is at that time, or an event handled between
  two calls.
\<close>

datatype action =
    Connect "provider option"
  | SwitchToSupportedNetwork "provider option"
  | Disconnect
  | Event event
  | NgOnDestroy

fun step :: "action \<Rightarrow> wallet_state \<Rightarrow> wallet_state" where
  "step (Connect w) st = final (connect w st)"
| "step (SwitchToSupportedNetwork w) st = final (switchToSupportedNetwork w st)"
| "step Disconnect st = disconnect st"
| "step (Event ev) st = handle_event ev st"
| "step NgOnDestroy st = ngOnDestroy st"

definition run :: "action list \<Rightarrow> wallet_state \<Rightarrow> wallet_state" where
  "run acts st = fold step acts st"

text \<open>The requests an action sends to the provider.\<close>

fun requests_of :: "action \<Rightarrow> wallet_state \<Rightarrow> request list" where
  "requests_of (Connect w) st = requests (connect w st)"
| "requests_of (SwitchToSupportedNetwork w) st = requests (switchToSupportedNetwork w st)"
| "requests_of Disconnect st = []"
| "requests_of (Event ev) st = []"
| "requests_of NgOnDestroy st = []"

subsection \<open>The writes of a history\<close>

text \<open>
  The same routines, as the sequence of \<open>next\<close> calls they make. The single write of
  \<open>_handleAccountsChanged\<close>:
\<close>

definition accounts_emissions :: "string list option \<Rightarrow> emission list" where
  "accounts_emissions accounts =
     (let addr = (case accounts of
                    None \<Rightarrow> None
                  | Some [] \<Rightarrow> None
                  | Some (a # _) \<Rightarrow> Some a)
      in [AddressNext (cond_str addr (\<lambda>a. Some (normalizeAddress a)) None)])"

fun event_emissions :: "event \<Rightarrow> emission list" where
  "event_emissions (AccountsChanged accounts) = accounts_emissions accounts"
| "event_emissions (ChainChanged c) = chain_emissions c"

definition deliver_emissions :: "event list \<Rightarrow> emission list" where
  "deliver_emissions evs = concat (map event_emissions evs)"

definition init_emissions :: "provider option \<Rightarrow> emission list" where
  "init_emissions w =
     (case w of
        Some eth \<Rightarrow>
          [IsMetaMaskInstalledNext True]
          @ cond_str (ethereum_chainId eth) (\<lambda>c. chain_emissions (Some c)) []
          @ cond_str (or_null (selectedAddress eth))
              (\<lambda>a. [AddressNext (Some (normalizeAddress a))]) []
      | None \<Rightarrow> [IsMetaMaskInstalledNext False])"

definition connect_emissions :: "provider option \<Rightarrow> emission list" where
  "connect_emissions w =
     (case w of
        None \<Rightarrow> [IsMetaMaskInstalledNext False]
      | Some eth \<Rightarrow>
          (case eth_requestAccounts eth of (evs1, r1) \<Rightarrow>
             deliver_emissions evs1
             @ (case r1 of
                  Inl err \<Rightarrow> []
                | Inr accounts \<Rightarrow>
                    accounts_emissions accounts
                    @ (case eth_chainId eth of (evs2, r2) \<Rightarrow>
                         deliver_emissions evs2
                         @ (case r2 of
                              Inl err \<Rightarrow> []
                            | Inr c \<Rightarrow> chain_emissions c)))))"

text \<open>
  \<open>switchToSupportedNetwork\<close> has no \<open>next\<close> call of its own: the writes during a call are
  those of the handlers, for the events received while its requests are pending.
\<close>

definition switch_emissions ::
  "string list \<Rightarrow> (string \<times> chain_params) list \<Rightarrow> provider option \<Rightarrow> wallet_state
     \<Rightarrow> emission list" where
  "switch_emissions supported chain_params w st =
     (case w of
        None \<Rightarrow> []
      | Some eth \<Rightarrow>
          (let current = chainId st;
               target = select_target supported current
           in case wallet_switchEthereumChain eth target of (evs1, r1) \<Rightarrow>
             deliver_emissions evs1
             @ (case r1 of
                  Inr u \<Rightarrow> []
                | Inl err \<Rightarrow>
                    if error_code err = JsNumber 4902 then
                      (case record_get chain_params (property_key target) of
                         Some params \<Rightarrow>
                           (case wallet_addEthereumChain eth params of (evs2, r2) \<Rightarrow>
                              deliver_emissions evs2)
                       | None \<Rightarrow> [])
                    else [])))"

fun emissions_of :: "action \<Rightarrow> wallet_state \<Rightarrow> emission list" where
  "emissions_of (Connect w) st = connect_emissions w"
| "emissions_of (SwitchToSupportedNetwork w) st =
     switch_emissions SUPPORTED_CHAIN_IDS CHAIN_PARAMS w st"
| "emissions_of Disconnect st = [AddressNext None]"
| "emissions_of (Event ev) st = event_emissions ev"
| "emissions_of NgOnDestroy st = []"

fun history_emissions :: "action list \<Rightarrow> wallet_state \<Rightarrow> emission list" where
  "history_emissions [] st = []"
| "history_emissions (a # acts) st = emissions_of a st @ history_emissions acts (step a st)"

text \<open>Each write of a sequence, paired with the state right after it.\<close>

fun trace :: "emission list \<Rightarrow> wallet_state \<Rightarrow> (emission \<times> wallet_state) list" where
  "trace [] st = []"
| "trace (e # es) st = (e, emit e st) # trace es (emit e st)"

fun is_chainId_next :: "emission \<Rightarrow> bool" where
  "is_chainId_next (ChainIdNext v) = True"
| "is_chainId_next e = False"

text \<open>
  The sequences of writes in which \<open>chainId\<close>, \<open>isSupportedNetwork\<close> and \<open>networkName\<close>
  are written only by whole runs of the chain-update routine.
\<close>

inductive whole_updates :: "emission list \<Rightarrow> bool" where
  none: "whole_updates []"
| chain: "whole_updates es \<Longrightarrow> whole_updates (chain_emissions c @ es)"
| address: "whole_updates es \<Longrightarrow> whole_updates (AddressNext v # es)"
| installed: "whole_updates es \<Longrightarrow> whole_updates (IsMetaMaskInstalledNext v # es)"

code_pred whole_updates .

subsection \<open>Derived notions and sample providers\<close>

text \<open>
  The value the invariant of the data model gives \<open>isSupportedNetwork\<close> for a chain
  identifier: membership in \<open>SUPPORTED_CHAIN_IDS\<close>, false for \<open>null\<close>.
\<close>

definition supported_of :: "string option \<Rightarrow> bool" where
  "supported_of c = (case c of None \<Rightarrow> False | Some x \<Rightarrow> x \<in> set SUPPORTED_CHAIN_IDS)"

text \<open>
  A wallet on Ethereum Mainnet with account \<open>0xABC\<close> selected, which grants every
  request: accounts \<open>["0xDEF", "0x123"]\<close>, chain \<open>0x89\<close>.
\<close>

definition example_provider :: provider where
  "example_provider =
     \<lparr>ethereum_chainId = Some ''0x1'',
      selectedAddress = Some ''0xABC'',
      eth_requestAccounts = ([], Inr (Some [''0xDEF'', ''0x123''])),
      eth_chainId = ([], Inr (Some ''0x89'')),
      wallet_switchEthereumChain = (\<lambda>t. ([], Inr ())),
      wallet_addEthereumChain = (\<lambda>p. ([], Inr ()))\<rparr>"

text \<open>The same wallet, rejecting the account request (the user declines).\<close>

definition accounts_rejected :: provider where
  "accounts_rejected =
     example_provider\<lparr>eth_requestAccounts :=
       ([], Inl (JsError ''User rejected the request.'' (JsNumber 4001) None))\<rparr>"

text \<open>The same wallet, granting the account request and failing the chain read.\<close>

definition chain_read_fails :: provider where
  "chain_read_fails =
     example_provider\<lparr>eth_chainId :=
       ([], Inl (JsError ''Disconnected'' (JsNumber 4900) None))\<rparr>"

text \<open>
  A wallet that exposes neither \<open>chainId\<close> nor \<open>selectedAddress\<close> yet, and a wallet
  that reports a change of chain while the account request it rejects is pending.
\<close>

definition unready_provider :: provider where
  "unready_provider = example_provider\<lparr>ethereum_chainId := None, selectedAddress := None\<rparr>"

definition busy_provider :: provider where
  "busy_provider =
     example_provider\<lparr>eth_requestAccounts :=
       ([ChainChanged (Some ''0x2a'')],
        Inl (JsError ''User rejected the request.'' (JsNumber 4001) None))\<rparr>"

text \<open>The same wallet, rejecting every switch request with the given error.\<close>

definition switch_rejects :: "js_error \<Rightarrow> provider" where
  "switch_rejects err =
     example_provider\<lparr>wallet_switchEthereumChain := (\<lambda>t. ([], Inl err))\<rparr>"

section \<open>Properties\<close>

subsection \<open>Auxiliary facts\<close>

lemmas adapter_defs =
  construct_def init_def initial_state_def handleChainChanged_def chain_emissions_def
  handleAccountsChanged_def
  chain_name_def record_get_def CHAIN_NAME_MAP_def SUPPORTED_CHAIN_IDS_def CHAIN_PARAMS_def
  OBJECT_PROTOTYPE_KEYS_def normalizeAddress_def connect_def switchToSupportedNetwork_def
  switch_with_def select_target_def first_def property_key_def new_Error_def disconnect_def
  example_provider_def accounts_rejected_def chain_read_fails_def switch_rejects_def
  unready_provider_def busy_provider_def
  run_def Let_def

lemma or_null_simps [simp]:
  "or_null None = None"
  "or_null (Some []) = None"
  "c \<noteq> [] \<Longrightarrow> or_null (Some c) = Some c"
  by (simp_all add: or_null_def cond_str_def)

lemma cond_str_simps [simp]:
  "cond_str None f d = d"
  "cond_str (Some []) f d = d"
  "c \<noteq> [] \<Longrightarrow> cond_str (Some c) f d = f c"
  by (simp_all add: cond_str_def)

lemma handleAccountsChanged_fields [simp]:
  "chainId (handleAccountsChanged a st) = chainId st"
  "networkName (handleAccountsChanged a st) = networkName st"
  "isSupportedNetwork (handleAccountsChanged a st) = isSupportedNetwork st"
  "isMetaMaskInstalled (handleAccountsChanged a st) = isMetaMaskInstalled st"
  by (simp_all add: handleAccountsChanged_def)

lemma handleChainChanged_fields [simp]:
  "address (handleChainChanged c st) = address st"
  "isMetaMaskInstalled (handleChainChanged c st) = isMetaMaskInstalled st"
  by (simp_all add: handleChainChanged_def chain_emissions_def Let_def)

text \<open>The state the three writes of the chain-update routine end in.\<close>

lemma handleChainChanged_eq:
  "handleChainChanged c st =
     (let cid = or_null c
      in st\<lparr>chainId := cid,
            isSupportedNetwork := cond_str cid (\<lambda>x. x \<in> set SUPPORTED_CHAIN_IDS) False,
            networkName := cond_str cid (\<lambda>x. Some (chain_name x)) None\<rparr>)"
  by (simp add: handleChainChanged_def chain_emissions_def Let_def)

lemma handleAccountsChanged_address:
  "address (handleAccountsChanged accounts st) =
     (case accounts of
        None \<Rightarrow> None
      | Some [] \<Rightarrow> None
      | Some (a # rest) \<Rightarrow> if a = [] then None else Some a)"
  by (simp add: handleAccountsChanged_def cond_str_def normalizeAddress_def
      split: option.splits list.splits)

lemma handleChainChanged_derived:
  "isSupportedNetwork (handleChainChanged c st) = supported_of (chainId (handleChainChanged c st))"
  by (simp add: handleChainChanged_def chain_emissions_def supported_of_def cond_str_def
      or_null_def Let_def
      split: option.splits)

lemma chain_name_mapped:
  "map_of CHAIN_NAME_MAP x = Some n \<Longrightarrow> chain_name x = Plain n"
  by (auto simp add: chain_name_def record_get_def CHAIN_NAME_MAP_def split: if_splits)

lemma chain_name_unmapped:
  "map_of CHAIN_NAME_MAP x = None \<Longrightarrow>
   chain_name x = (if x \<in> set OBJECT_PROTOTYPE_KEYS then Builtin x else Plain (''Chain '' @ x))"
  by (simp add: chain_name_def record_get_def)

lemma deliver_Nil [simp]: "deliver [] st = st"
  by (simp add: deliver_def)

lemma deliver_Cons [simp]: "deliver (ev # evs) st = deliver evs (handle_event ev st)"
  by (simp add: deliver_def)

lemma deliver_append: "deliver (evs1 @ evs2) st = deliver evs2 (deliver evs1 st)"
  by (simp add: deliver_def)

text \<open>
  The two update routines are the only writers the handlers have: what both preserve,
  every delivery of events preserves.
\<close>

lemma deliver_invariant:
  assumes acc: "\<And>a s. P s \<Longrightarrow> P (handleAccountsChanged a s)"
    and chain: "\<And>c s. P s \<Longrightarrow> P (handleChainChanged c s)"
    and start: "P st"
  shows "P (deliver evs st)"
  using start
proof (induction evs arbitrary: st)
  case Nil
  then show ?case by simp
next
  case (Cons ev evs)
  have "P (handle_event ev st)"
    using Cons.prems by (cases ev) (simp_all add: acc chain)
  then show ?case by (simp add: Cons.IH)
qed

text \<open>The state an action ends in, path by path.\<close>

lemma connect_final_cases:
  "final (connect w st) =
     (case w of
        None \<Rightarrow> st\<lparr>isMetaMaskInstalled := False\<rparr>
      | Some eth \<Rightarrow>
          (case snd (eth_requestAccounts eth) of
             Inl err \<Rightarrow> deliver (fst (eth_requestAccounts eth)) st
           | Inr accounts \<Rightarrow>
               (case snd (eth_chainId eth) of
                  Inl err \<Rightarrow>
                    deliver (fst (eth_chainId eth))
                      (handleAccountsChanged accounts (deliver (fst (eth_requestAccounts eth)) st))
                | Inr c \<Rightarrow>
                    handleChainChanged c
                      (deliver (fst (eth_chainId eth))
                        (handleAccountsChanged accounts
                          (deliver (fst (eth_requestAccounts eth)) st))))))"
  by (simp add: connect_def Let_def split: option.splits prod.splits sum.splits)

lemma switch_final_cases:
  "final (switch_with supported ps w st) =
     (case w of
        None \<Rightarrow> st
      | Some eth \<Rightarrow>
          (let target = select_target supported (chainId st);
               r1 = wallet_switchEthereumChain eth target;
               st1 = deliver (fst r1) st
           in case snd r1 of
                Inr u \<Rightarrow> st1
              | Inl err \<Rightarrow>
                  if error_code err = JsNumber 4902 then
                    (case record_get ps (property_key target) of
                       Some params \<Rightarrow> deliver (fst (wallet_addEthereumChain eth params)) st1
                     | None \<Rightarrow> st1)
                  else st1))"
  by (simp add: switch_with_def Let_def split: option.splits prod.splits sum.splits)

text \<open>
  Every write to the five fields is one of four: the two update routines, the
  \<open>isMetaMaskInstalled$.next(false)\<close> of \<open>connect\<close>, and the \<open>address$.next(null)\<close> of
  \<open>disconnect\<close>. What the four preserve is an invariant of every history.
\<close>

lemma step_invariant:
  assumes acc: "\<And>a s. P s \<Longrightarrow> P (handleAccountsChanged a s)"
    and chain: "\<And>c s. P s \<Longrightarrow> P (handleChainChanged c s)"
    and flag: "\<And>s. P s \<Longrightarrow> P (s\<lparr>isMetaMaskInstalled := False\<rparr>)"
    and addr: "\<And>s. P s \<Longrightarrow> P (s\<lparr>address := None\<rparr>)"
    and start: "P st"
  shows "P (step a st)"
proof (cases a)
  case (Connect w)
  have d: "\<And>evs s. P s \<Longrightarrow> P (deliver evs s)"
    by (rule deliver_invariant) (auto intro: acc chain)
  show ?thesis
    using start
    by (simp add: Connect connect_final_cases d acc chain flag split: option.splits sum.splits)
next
  case (SwitchToSupportedNetwork w)
  have d: "\<And>evs s. P s \<Longrightarrow> P (deliver evs s)"
    by (rule deliver_invariant) (auto intro: acc chain)
  show ?thesis
    using start
    by (simp add: SwitchToSupportedNetwork switchToSupportedNetwork_def switch_final_cases
        Let_def d split: option.splits sum.splits)
next
  case Disconnect
  then show ?thesis using start by (simp add: disconnect_def addr)
next
  case (Event ev)
  then show ?thesis using start by (cases ev) (simp_all add: acc chain)
next
  case NgOnDestroy
  then show ?thesis using start by (simp add: ngOnDestroy_def)
qed

lemma run_invariant:
  assumes acc: "\<And>a s. P s \<Longrightarrow> P (handleAccountsChanged a s)"
    and chain: "\<And>c s. P s \<Longrightarrow> P (handleChainChanged c s)"
    and flag: "\<And>s. P s \<Longrightarrow> P (s\<lparr>isMetaMaskInstalled := False\<rparr>)"
    and addr: "\<And>s. P s \<Longrightarrow> P (s\<lparr>address := None\<rparr>)"
    and start: "P st"
  shows "P (run acts st)"
  using start
proof (induction acts arbitrary: st)
  case Nil
  then show ?case by (simp add: run_def)
next
  case (Cons a acts)
  have "P (step a st)"
    by (rule step_invariant) (auto intro: acc chain flag addr Cons.prems)
  then have "P (run acts (step a st))" by (rule Cons.IH)
  then show ?case by (simp add: run_def)
qed

lemma step_installed:
  "isMetaMaskInstalled (step a st) = (isMetaMaskInstalled st \<and> a \<noteq> Connect None)"
proof (cases "a = Connect None")
  case True
  then show ?thesis by (simp add: connect_final_cases)
next
  case False
  have keep: "\<And>evs s. isMetaMaskInstalled (deliver evs s) = isMetaMaskInstalled s"
  proof -
    fix evs s
    show "isMetaMaskInstalled (deliver evs s) = isMetaMaskInstalled s"
      by (rule deliver_invariant [where P = "\<lambda>t. isMetaMaskInstalled t = isMetaMaskInstalled s"])
        simp_all
  qed
  show ?thesis
  proof (cases a)
    case (Connect w)
    with False obtain eth where "w = Some eth" by (cases w) auto
    then show ?thesis
      using False Connect by (simp add: connect_final_cases keep split: sum.splits)
  next
    case (SwitchToSupportedNetwork w)
    then show ?thesis
      by (simp add: switchToSupportedNetwork_def switch_final_cases Let_def keep
          split: option.splits sum.splits)
  next
    case Disconnect
    then show ?thesis by (simp add: disconnect_def)
  next
    case (Event ev)
    then show ?thesis by (cases ev) simp_all
  next
    case NgOnDestroy
    then show ?thesis by (simp add: ngOnDestroy_def)
  qed
qed

lemma init_address: "address st \<noteq> Some [] \<Longrightarrow> address (init w st) \<noteq> Some []"
  by (cases w)
    (auto simp add: init_def Let_def cond_str_def or_null_def normalizeAddress_def
      split: option.splits)

lemma select_target_spec:
  "'''' \<notin> set supported \<Longrightarrow>
   select_target supported current =
     (case find (\<lambda>i. Some i \<noteq> current) supported of
        Some t \<Rightarrow> Some t
      | None \<Rightarrow> first supported)"
proof (cases "find (\<lambda>i. Some i \<noteq> current) supported")
  case None
  then show ?thesis by (simp add: select_target_def)
next
  case (Some t)
  assume reg: "'''' \<notin> set supported"
  from Some have "t \<in> set supported"
    by (auto simp add: find_Some_iff)
  with reg have "t \<noteq> ''''" by auto
  with Some show ?thesis by (simp add: select_target_def)
qed

lemma select_target_module:
  "select_target SUPPORTED_CHAIN_IDS current =
     Some (if current = Some ''0x1'' then ''0x5'' else ''0x1'')"
  by (simp add: select_target_def SUPPORTED_CHAIN_IDS_def first_def)

lemma switch_first_request:
  "\<exists>rest. requests (switch_with supported ps (Some eth) st) =
     Wallet_switchEthereumChain (select_target supported (chainId st)) # rest"
  by (simp add: switch_with_def Let_def split: prod.splits sum.splits option.splits)


subsection \<open>The writes behind each routine\<close>

text \<open>Each routine ends in the state its writes, applied in order, produce.\<close>

lemma handleAccountsChanged_emit:
  "handleAccountsChanged accounts st = fold emit (accounts_emissions accounts) st"
  by (simp add: handleAccountsChanged_def accounts_emissions_def Let_def)

lemma handle_event_emit: "handle_event ev st = fold emit (event_emissions ev) st"
  by (cases ev) (simp_all add: handleAccountsChanged_emit handleChainChanged_def)

lemma deliver_emit: "deliver evs st = fold emit (deliver_emissions evs) st"
  by (induction evs arbitrary: st) (simp_all add: deliver_emissions_def handle_event_emit)

lemma init_emit: "init w st = fold emit (init_emissions w) st"
  by (cases w)
    (auto simp add: init_def init_emissions_def Let_def cond_str_def or_null_def
      handleChainChanged_def split: option.splits)

lemma connect_emit: "final (connect w st) = fold emit (connect_emissions w) st"
  by (simp add: connect_def connect_emissions_def Let_def deliver_emit
      handleAccountsChanged_emit handleChainChanged_def
      split: option.splits prod.splits sum.splits)

lemma switch_emit:
  "final (switch_with supported ps w st) = fold emit (switch_emissions supported ps w st) st"
  by (simp add: switch_with_def switch_emissions_def Let_def deliver_emit
      split: option.splits prod.splits sum.splits)

lemma step_emit: "step a st = fold emit (emissions_of a st) st"
  by (cases a)
    (simp_all add: connect_emit switchToSupportedNetwork_def switch_emit disconnect_def
      handle_event_emit ngOnDestroy_def)

lemma run_emit: "run acts st = fold emit (history_emissions acts st) st"
proof (induction acts arbitrary: st)
  case Nil
  then show ?case by (simp add: run_def)
next
  case (Cons a acts)
  have "run (a # acts) st = run acts (step a st)" by (simp add: run_def)
  then show ?case by (simp add: Cons.IH step_emit)
qed

lemma run_construct_emit:
  "run acts (construct w) =
     fold emit (init_emissions w @ history_emissions acts (construct w)) initial_state"
  by (simp add: run_emit construct_def init_emit)

lemma trace_append: "trace (xs @ ys) st = trace xs st @ trace ys (fold emit xs st)"
  by (induction xs arbitrary: st) simp_all

text \<open>The three writes of a chain update, each with the state after it.\<close>

lemma trace_chain_emissions:
  "trace (chain_emissions c) st =
     [(ChainIdNext (or_null c), st\<lparr>chainId := or_null c\<rparr>),
      (IsSupportedNetworkNext (supported_of (or_null c)),
       st\<lparr>chainId := or_null c, isSupportedNetwork := supported_of (or_null c)\<rparr>),
      (NetworkNameNext (networkName (handleChainChanged c st)), handleChainChanged c st)]"
  by (simp add: chain_emissions_def handleChainChanged_def Let_def supported_of_def cond_str_def
      or_null_def split: option.splits)

text \<open>Every routine writes the three chain fields by whole chain updates only.\<close>

lemma whole_updates_append:
  "whole_updates xs \<Longrightarrow> whole_updates ys \<Longrightarrow> whole_updates (xs @ ys)"
  by (induction xs rule: whole_updates.induct) (auto intro: whole_updates.intros)

lemma whole_updates_chain: "whole_updates (chain_emissions c)"
  using whole_updates.chain [OF whole_updates.none, of c] by simp

lemma whole_updates_accounts: "whole_updates (accounts_emissions accounts)"
  by (simp add: accounts_emissions_def Let_def whole_updates.intros)

lemma whole_updates_event: "whole_updates (event_emissions ev)"
  by (cases ev) (simp_all add: whole_updates_chain whole_updates_accounts)

lemma whole_updates_deliver: "whole_updates (deliver_emissions evs)"
  by (induction evs)
    (simp_all add: deliver_emissions_def whole_updates.none whole_updates_append
      whole_updates_event)

lemma whole_updates_init: "whole_updates (init_emissions w)"
  by (cases w)
    (auto simp add: init_emissions_def cond_str_def
      intro!: whole_updates.intros whole_updates_append whole_updates_chain
      split: option.splits)

lemma whole_updates_connect: "whole_updates (connect_emissions w)"
  by (auto simp add: connect_emissions_def
      intro!: whole_updates.intros whole_updates_append whole_updates_chain
        whole_updates_accounts whole_updates_deliver
      split: option.splits prod.splits sum.splits)

lemma whole_updates_switch: "whole_updates (switch_emissions supported ps w st)"
  by (auto simp add: switch_emissions_def Let_def
      intro!: whole_updates.intros whole_updates_append whole_updates_deliver
      split: option.splits prod.splits sum.splits)

lemma whole_updates_action: "whole_updates (emissions_of a st)"
  by (cases a)
    (simp_all add: whole_updates_connect whole_updates_switch whole_updates_event
      whole_updates.intros)

lemma whole_updates_history: "whole_updates (history_emissions acts st)"
  by (induction acts arbitrary: st)
    (simp_all add: whole_updates.none whole_updates_append whole_updates_action)

text \<open>
  What such a sequence does to the relation between \<open>chainId\<close> and
  \<open>isSupportedNetwork\<close>: after every write but a write of \<open>chainId\<close>, either the flag
  is the membership test of the stored identifier, or the three chain fields still have
  their initial values.
\<close>

lemma unread_or_derived_trace:
  assumes "whole_updates es"
    and "isSupportedNetwork st = supported_of (chainId st)
         \<or> chainId st = None \<and> isSupportedNetwork st \<and> networkName st = None"
    and "(e, s) \<in> set (trace es st)"
  shows "is_chainId_next e
         \<or> isSupportedNetwork s = supported_of (chainId s)
         \<or> chainId s = None \<and> isSupportedNetwork s \<and> networkName s = None"
  using assms
proof (induction es arbitrary: st rule: whole_updates.induct)
  case none
  then show ?case by simp
next
  case (chain es c)
  from chain.prems(2) have
    "(e, s) \<in> set (trace (chain_emissions c) st) \<or> (e, s) \<in> set (trace es (handleChainChanged c st))"
    by (simp add: trace_append handleChainChanged_def)
  then show ?case
  proof
    assume "(e, s) \<in> set (trace (chain_emissions c) st)"
    then show ?thesis
      using handleChainChanged_derived [of c st] by (auto simp add: trace_chain_emissions)
  next
    assume "(e, s) \<in> set (trace es (handleChainChanged c st))"
    then show ?thesis
      using chain.IH [of "handleChainChanged c st"] handleChainChanged_derived [of c st] by blast
  qed
next
  case (address es v)
  from address.prems(2) have "(e, s) = (AddressNext v, st\<lparr>address := v\<rparr>)
      \<or> (e, s) \<in> set (trace es (st\<lparr>address := v\<rparr>))"
    by auto
  then show ?case
  proof
    assume "(e, s) = (AddressNext v, st\<lparr>address := v\<rparr>)"
    then show ?thesis using address.prems(1) by auto
  next
    assume "(e, s) \<in> set (trace es (st\<lparr>address := v\<rparr>))"
    then show ?thesis using address.IH [of "st\<lparr>address := v\<rparr>"] address.prems(1) by simp
  qed
next
  case (installed es v)
  from installed.prems(2) have "(e, s) = (IsMetaMaskInstalledNext v, st\<lparr>isMetaMaskInstalled := v\<rparr>)
      \<or> (e, s) \<in> set (trace es (st\<lparr>isMetaMaskInstalled := v\<rparr>))"
    by auto
  then show ?case
  proof
    assume "(e, s) = (IsMetaMaskInstalledNext v, st\<lparr>isMetaMaskInstalled := v\<rparr>)"
    then show ?thesis using installed.prems(1) by auto
  next
    assume "(e, s) \<in> set (trace es (st\<lparr>isMetaMaskInstalled := v\<rparr>))"
    then show ?thesis
      using installed.IH [of "st\<lparr>isMetaMaskInstalled := v\<rparr>"] installed.prems(1) by simp
  qed
qed

lemma derived_kept:
  "whole_updates es \<Longrightarrow> isSupportedNetwork st = supported_of (chainId st) \<Longrightarrow>
   isSupportedNetwork (fold emit es st) = supported_of (chainId (fold emit es st))"
proof (induction es arbitrary: st rule: whole_updates.induct)
  case none
  then show ?case by simp
next
  case (chain es c)
  have "fold emit (chain_emissions c @ es) st = fold emit es (handleChainChanged c st)"
    by (simp add: handleChainChanged_def)
  then show ?case using chain.IH [of "handleChainChanged c st"] handleChainChanged_derived [of c st]
    by simp
next
  case (address es v)
  then show ?case by simp
next
  case (installed es v)
  then show ?case by simp
qed

lemma derived_after_chain_update:
  "whole_updates es \<Longrightarrow> list_ex is_chainId_next es \<Longrightarrow>
   isSupportedNetwork (fold emit es st) = supported_of (chainId (fold emit es st))"
proof (induction es arbitrary: st rule: whole_updates.induct)
  case none
  then show ?case by simp
next
  case (chain es c)
  have "fold emit (chain_emissions c @ es) st = fold emit es (handleChainChanged c st)"
    by (simp add: handleChainChanged_def)
  then show ?case
    using derived_kept [OF chain.hyps, of "handleChainChanged c st"]
      handleChainChanged_derived [of c st]
    by simp
next
  case (address es v)
  then show ?case by simp
next
  case (installed es v)
  then show ?case by simp
qed

lemma unread_kept:
  "whole_updates es \<Longrightarrow> \<not> list_ex is_chainId_next es \<Longrightarrow>
   chainId st = None \<and> isSupportedNetwork st \<and> networkName st = None \<Longrightarrow>
   chainId (fold emit es st) = None \<and> isSupportedNetwork (fold emit es st)
   \<and> networkName (fold emit es st) = None"
proof (induction es arbitrary: st rule: whole_updates.induct)
  case none
  then show ?case by simp
next
  case (chain es c)
  from chain.prems(1) show ?case by (simp add: chain_emissions_def Let_def)
next
  case (address es v)
  then show ?case by simp
next
  case (installed es v)
  then show ?case by simp
qed

section \<open>The claims\<close>

subsection \<open>C1: the state after a failing action\<close>

text \<open>
  C1, as stated, fails: a \<open>connect()\<close> that raises after the accounts request has
  resolved has already run the account-update routine. With the wallet
  \<open>chain_read_fails\<close> the call raises the error of the chain read, and \<open>address\<close> has
  gone from \<open>0xABC\<close> to \<open>0xDEF\<close>.
\<close>

theorem connect_partial_update_counterexample:
  "result (connect (Some chain_read_fails) (construct (Some chain_read_fails)))
     = Inl (JsError ''Disconnected'' (JsNumber 4900) None)
   \<and> address (construct (Some chain_read_fails)) = Some ''0xABC''
   \<and> address (final (connect (Some chain_read_fails) (construct (Some chain_read_fails))))
     = Some ''0xDEF''"
  by (simp add: adapter_defs)

text \<open>
  C1, as amended.

  \<^item> \<open>switchToSupportedNetwork\<close> makes no write of its own, whether it fails or not.
    Without a provider it ends in the state it started in. With one it ends in the
    start state with the events applied, in order, that the handlers received while its
    switch request was pending and, when it sends an add-chain request, while that
    request was pending; that is the start state itself when the provider delivers no
    event during a switch request for the selected target or during an add-chain
    request.
  \<^item> A \<open>connect\<close> that fails for a missing provider sets \<open>isMetaMaskInstalled\<close> to false
    and leaves the other four fields.
  \<^item> A \<open>connect\<close> whose accounts request is rejected makes no write of its own: it ends in
    the start state with the events applied that were received while that request was
    pending, which is the start state itself when there are none.
  \<^item> A \<open>connect\<close> that raises after the accounts request has resolved has already run
    the account-update routine: it ends in the state reached from the start state by
    the events received during the accounts request, then the account-update routine
    on the resolved list, then the events received during the chain request. When no
    event arrives during either request, that is the start state with \<open>address\<close>
    replaced: \<open>chainId\<close>, \<open>networkName\<close>, \<open>isSupportedNetwork\<close> and
    \<open>isMetaMaskInstalled\<close> are unchanged.
  \<^item> \<open>connect\<close> fails in these three ways only, and \<open>disconnect\<close> cannot fail.
\<close>

theorem failure_leaves_state:
  "final (switchToSupportedNetwork None st) = st
   \<and> final (switchToSupportedNetwork (Some eth) st) =
       (let target = select_target SUPPORTED_CHAIN_IDS (chainId st);
            r1 = wallet_switchEthereumChain eth target;
            st1 = deliver (fst r1) st
        in case snd r1 of
             Inr u \<Rightarrow> st1
           | Inl e \<Rightarrow>
               if error_code e = JsNumber 4902 then
                 (case record_get CHAIN_PARAMS (property_key target) of
                    Some params \<Rightarrow> deliver (fst (wallet_addEthereumChain eth params)) st1
                  | None \<Rightarrow> st1)
               else st1)
   \<and> (fst (wallet_switchEthereumChain eth (select_target SUPPORTED_CHAIN_IDS (chainId st))) = []
        \<and> (\<forall>p. fst (wallet_addEthereumChain eth p) = []) \<longrightarrow>
        final (switchToSupportedNetwork (Some eth) st) = st)
   \<and> final (connect None st) = st\<lparr>isMetaMaskInstalled := False\<rparr>
   \<and> result (connect None st) = Inl (new_Error ''MetaMask not installed'')
   \<and> (snd (eth_requestAccounts eth) = Inl err \<longrightarrow>
        result (connect (Some eth) st) = Inl err
        \<and> final (connect (Some eth) st) = deliver (fst (eth_requestAccounts eth)) st)
   \<and> (eth_requestAccounts eth = ([], Inl err) \<longrightarrow> final (connect (Some eth) st) = st)
   \<and> (snd (eth_requestAccounts eth) = Inr accounts \<and> snd (eth_chainId eth) = Inl err \<longrightarrow>
        result (connect (Some eth) st) = Inl err
        \<and> final (connect (Some eth) st) =
            deliver (fst (eth_chainId eth))
              (handleAccountsChanged accounts (deliver (fst (eth_requestAccounts eth)) st)))
   \<and> (eth_requestAccounts eth = ([], Inr accounts) \<and> eth_chainId eth = ([], Inl err) \<longrightarrow>
        final (connect (Some eth) st) = handleAccountsChanged accounts st
        \<and> chainId (final (connect (Some eth) st)) = chainId st
        \<and> networkName (final (connect (Some eth) st)) = networkName st
        \<and> isSupportedNetwork (final (connect (Some eth) st)) = isSupportedNetwork st
        \<and> isMetaMaskInstalled (final (connect (Some eth) st)) = isMetaMaskInstalled st)
   \<and> (result (connect w st) = Inl err \<longrightarrow>
        w = None
        \<or> (\<exists>p. w = Some p \<and> snd (eth_requestAccounts p) = Inl err)
        \<or> (\<exists>p accs. w = Some p \<and> snd (eth_requestAccounts p) = Inr accs
              \<and> snd (eth_chainId p) = Inl err))"
proof -
  have sw0: "final (switchToSupportedNetwork None st) = st"
    by (simp add: switchToSupportedNetwork_def switch_final_cases)
  have sw1: "final (switchToSupportedNetwork (Some eth) st) =
       (let target = select_target SUPPORTED_CHAIN_IDS (chainId st);
            r1 = wallet_switchEthereumChain eth target;
            st1 = deliver (fst r1) st
        in case snd r1 of
             Inr u \<Rightarrow> st1
           | Inl e \<Rightarrow>
               if error_code e = JsNumber 4902 then
                 (case record_get CHAIN_PARAMS (property_key target) of
                    Some params \<Rightarrow> deliver (fst (wallet_addEthereumChain eth params)) st1
                  | None \<Rightarrow> st1)
               else st1)"
    by (simp add: switchToSupportedNetwork_def switch_final_cases)
  have sw2: "fst (wallet_switchEthereumChain eth (select_target SUPPORTED_CHAIN_IDS (chainId st))) = []
        \<and> (\<forall>p. fst (wallet_addEthereumChain eth p) = []) \<longrightarrow>
        final (switchToSupportedNetwork (Some eth) st) = st"
    by (simp add: switchToSupportedNetwork_def switch_final_cases Let_def
        split: sum.splits option.splits)
  have c0: "final (connect None st) = st\<lparr>isMetaMaskInstalled := False\<rparr>"
    "result (connect None st) = Inl (new_Error ''MetaMask not installed'')"
    by (simp_all add: connect_def)
  have c1: "snd (eth_requestAccounts eth) = Inl err \<longrightarrow>
        result (connect (Some eth) st) = Inl err
        \<and> final (connect (Some eth) st) = deliver (fst (eth_requestAccounts eth)) st"
    by (auto simp add: connect_def split: prod.splits)
  have c1q: "eth_requestAccounts eth = ([], Inl err) \<longrightarrow> final (connect (Some eth) st) = st"
    by (simp add: connect_def)
  have c2: "snd (eth_requestAccounts eth) = Inr accounts \<and> snd (eth_chainId eth) = Inl err \<longrightarrow>
        result (connect (Some eth) st) = Inl err
        \<and> final (connect (Some eth) st) =
            deliver (fst (eth_chainId eth))
              (handleAccountsChanged accounts (deliver (fst (eth_requestAccounts eth)) st))"
    by (auto simp add: connect_def Let_def split: prod.splits)
  have c2q: "eth_requestAccounts eth = ([], Inr accounts) \<and> eth_chainId eth = ([], Inl err) \<longrightarrow>
        final (connect (Some eth) st) = handleAccountsChanged accounts st"
    by (simp add: connect_def)
  have ways: "result (connect w st) = Inl err \<longrightarrow>
        w = None
        \<or> (\<exists>p. w = Some p \<and> snd (eth_requestAccounts p) = Inl err)
        \<or> (\<exists>p accs. w = Some p \<and> snd (eth_requestAccounts p) = Inr accs
              \<and> snd (eth_chainId p) = Inl err)"
    by (auto simp add: connect_def Let_def split: option.splits prod.splits sum.splits)
  from sw0 sw1 sw2 c0 c1 c1q c2 c2q ways show ?thesis by simp
qed

text \<open>
  The amended C1 from the state a service constructed on \<open>example_provider\<close> is in: a
  rejected switch and a rejected accounts request without events, a rejected accounts
  request during which the wallet reported the chain \<open>0x2a\<close>, and a chain read that
  fails after the accounts request was granted.
\<close>

theorem failure_leaves_state_witness:
  "final (switchToSupportedNetwork
        (Some (switch_rejects (JsError ''User rejected the request.'' (JsNumber 4001) None)))
        (construct (Some example_provider)))
      = construct (Some example_provider)
   \<and> result (connect (Some accounts_rejected) (construct (Some example_provider)))
      = Inl (JsError ''User rejected the request.'' (JsNumber 4001) None)
   \<and> final (connect (Some accounts_rejected) (construct (Some example_provider)))
      = construct (Some example_provider)
   \<and> result (connect (Some busy_provider) (construct (Some example_provider)))
      = Inl (JsError ''User rejected the request.'' (JsNumber 4001) None)
   \<and> final (connect (Some busy_provider) (construct (Some example_provider)))
      = (construct (Some example_provider))
          \<lparr>chainId := Some ''0x2a'', isSupportedNetwork := False,
           networkName := Some (Plain ''Chain 0x2a'')\<rparr>
   \<and> result (connect (Some chain_read_fails) (construct (Some example_provider)))
      = Inl (JsError ''Disconnected'' (JsNumber 4900) None)
   \<and> final (connect (Some chain_read_fails) (construct (Some example_provider)))
      = (construct (Some example_provider))\<lparr>address := Some ''0xDEF''\<rparr>"
proof -
  let ?rejected = "JsError ''User rejected the request.'' (JsNumber 4001) None"
  let ?lost = "JsError ''Disconnected'' (JsNumber 4900) None"
  let ?s = "construct (Some example_provider)"
  have quiet_switch:
    "fst (wallet_switchEthereumChain (switch_rejects ?rejected)
        (select_target SUPPORTED_CHAIN_IDS (chainId ?s))) = []
     \<and> (\<forall>p. fst (wallet_addEthereumChain (switch_rejects ?rejected) p) = [])"
    by (simp add: switch_rejects_def example_provider_def)
  have r2: "eth_requestAccounts accounts_rejected = ([], Inl ?rejected)"
    by (simp add: accounts_rejected_def example_provider_def)
  have r3: "snd (eth_requestAccounts busy_provider) = Inl ?rejected"
    "fst (eth_requestAccounts busy_provider) = [ChainChanged (Some ''0x2a'')]"
    by (simp_all add: busy_provider_def example_provider_def)
  have r4: "eth_requestAccounts chain_read_fails = ([], Inr (Some [''0xDEF'', ''0x123'']))"
    "eth_chainId chain_read_fails = ([], Inl ?lost)"
    by (simp_all add: chain_read_fails_def example_provider_def)
  have chain: "handleChainChanged (Some ''0x2a'') ?s
      = ?s\<lparr>chainId := Some ''0x2a'', isSupportedNetwork := False,
           networkName := Some (Plain ''Chain 0x2a'')\<rparr>"
    by (simp add: handleChainChanged_eq chain_name_def record_get_def CHAIN_NAME_MAP_def
        SUPPORTED_CHAIN_IDS_def OBJECT_PROTOTYPE_KEYS_def)
  have upd: "handleAccountsChanged (Some [''0xDEF'', ''0x123'']) ?s = ?s\<lparr>address := Some ''0xDEF''\<rparr>"
    by (simp add: handleAccountsChanged_def normalizeAddress_def)
  from failure_leaves_state [of ?s "switch_rejects ?rejected"] quiet_switch
  have a: "final (switchToSupportedNetwork (Some (switch_rejects ?rejected)) ?s) = ?s"
    by blast
  from failure_leaves_state [of ?s accounts_rejected ?rejected] r2
  have b: "result (connect (Some accounts_rejected) ?s) = Inl ?rejected
      \<and> final (connect (Some accounts_rejected) ?s) = ?s"
    by simp
  from failure_leaves_state [of ?s busy_provider ?rejected] r3 chain
  have c: "result (connect (Some busy_provider) ?s) = Inl ?rejected
      \<and> final (connect (Some busy_provider) ?s)
        = ?s\<lparr>chainId := Some ''0x2a'', isSupportedNetwork := False,
             networkName := Some (Plain ''Chain 0x2a'')\<rparr>"
    by simp
  from failure_leaves_state [of ?s chain_read_fails ?lost "Some [''0xDEF'', ''0x123'']"] r4 upd
  have d: "result (connect (Some chain_read_fails) ?s) = Inl ?lost
      \<and> final (connect (Some chain_read_fails) ?s) = ?s\<lparr>address := Some ''0xDEF''\<rparr>"
    by simp
  from a b c d show ?thesis by simp
qed

subsection \<open>C2: who writes \<open>isMetaMaskInstalled\<close>\<close>

text \<open>
  C2, as stated, fails: \<open>connect\<close> writes the field again on its missing-provider path.
  A service constructed with the provider present holds true; a later \<open>connect()\<close> that
  finds \<open>window.ethereum\<close> gone sets it to false.
\<close>

theorem installed_flag_rewritten_counterexample:
  "isMetaMaskInstalled (construct (Some example_provider)) = True
   \<and> isMetaMaskInstalled (run [Connect None] (construct (Some example_provider))) = False"
  by (simp add: adapter_defs)

text \<open>
  C2, as amended. Construction sets \<open>isMetaMaskInstalled\<close> to whether the provider is
  present. Afterwards the only operation that writes it is a \<open>connect\<close> that finds no
  provider, which sets it to false: after any history the field is true exactly when
  construction set it to true and no such \<open>connect\<close> has happened. \<open>disconnect\<close>,
  \<open>switchToSupportedNetwork\<close>, the event callbacks and a \<open>connect\<close> that finds a provider
  never change it.
\<close>

theorem installed_flag_history:
  "isMetaMaskInstalled (construct w) = (w \<noteq> None)
   \<and> isMetaMaskInstalled (run acts st) = (isMetaMaskInstalled st \<and> Connect None \<notin> set acts)"
proof -
  have "isMetaMaskInstalled (construct w) = (w \<noteq> None)"
    by (cases w) (simp_all add: construct_def init_def Let_def cond_str_def split: option.splits)
  moreover have "isMetaMaskInstalled (run acts st)
      = (isMetaMaskInstalled st \<and> Connect None \<notin> set acts)"
  proof (induction acts arbitrary: st)
    case Nil
    then show ?case by (simp add: run_def)
  next
    case (Cons a acts)
    have "run (a # acts) st = run acts (step a st)" by (simp add: run_def)
    then show ?case using Cons.IH [of "step a st"] step_installed [of a st] by auto
  qed
  ultimately show ?thesis by simp
qed

text \<open>
  The amended C2 on a history without a provider-less \<open>connect\<close>: the flag keeps the
  value construction gave it.
\<close>

theorem installed_flag_history_witness:
  "isMetaMaskInstalled
     (run [Connect (Some accounts_rejected), Event (AccountsChanged (Some [])), Disconnect,
           SwitchToSupportedNetwork None, Event (ChainChanged (Some ''0x5'')),
           Connect (Some example_provider), NgOnDestroy]
        (construct (Some example_provider))) = True"
  using installed_flag_history
    [of "Some example_provider"
        "[Connect (Some accounts_rejected), Event (AccountsChanged (Some [])), Disconnect,
          SwitchToSupportedNetwork None, Event (ChainChanged (Some ''0x5'')),
          Connect (Some example_provider), NgOnDestroy]"
        "construct (Some example_provider)"]
  by simp

subsection \<open>C3: \<open>isSupportedNetwork\<close> as a function of \<open>chainId\<close>\<close>

text \<open>
  C3, as stated, fails in two places. Before the first chain read: a service
  constructed without a provider has \<open>chainId = null\<close> and \<open>isSupportedNetwork = true\<close>,
  the initial value of the subject. And inside a run of the chain-update routine: when
  a wallet on Mainnet reports the chain \<open>0x2a\<close>, the first write stores \<open>0x2a\<close> in
  \<open>chainId\<close> while \<open>isSupportedNetwork\<close> is still true.
\<close>

theorem initial_supported_flag_counterexample:
  "chainId (construct None) = None \<and> isSupportedNetwork (construct None) = True
   \<and> hd (trace (emissions_of (Event (ChainChanged (Some ''0x2a'')))
              (construct (Some example_provider)))
            (construct (Some example_provider)))
       = (ChainIdNext (Some ''0x2a''),
          \<lparr>address = Some ''0xABC'', chainId = Some ''0x2a'',
           networkName = Some (Plain ''Ethereum Mainnet''),
           isSupportedNetwork = True, isMetaMaskInstalled = True\<rparr>)
   \<and> ''0x2a'' \<notin> set SUPPORTED_CHAIN_IDS"
  by (simp add: adapter_defs)

text \<open>
  C3, as amended. Write \<open>derived\<close> for: \<open>isSupportedNetwork\<close> equals the membership test
  of the current \<open>chainId\<close> against \<open>SUPPORTED_CHAIN_IDS\<close>, false when \<open>chainId\<close> is
  \<open>null\<close>; and \<open>unread\<close> for: \<open>chainId\<close> is \<open>null\<close>, \<open>isSupportedNetwork\<close> is true and
  \<open>networkName\<close> is \<open>null\<close> (the initial values).

  \<^item> The chain-update routine writes \<open>chainId\<close>, then \<open>isSupportedNetwork\<close>, then
    \<open>networkName\<close>. Right after the first write \<open>isSupportedNetwork\<close> still has its
    previous value; the state is derived after the second write and after the third.
  \<^item> After construction, every state that follows a write other than a write of
    \<open>chainId\<close> is derived or unread.
  \<^item> After construction and any sequence of completed calls and handled events, the
    state is derived if a chain update has run, at construction or since, and unread
    if none has. Construction runs one exactly when the provider is present and
    exposes a non-empty \<open>chainId\<close>.
  \<^item> No operation sets \<open>isSupportedNetwork\<close> independently of \<open>chainId\<close>: from a derived
    state every such sequence ends in a derived state. So whenever \<open>chainId\<close> is not
    \<open>null\<close> after such a sequence, \<open>isSupportedNetwork\<close> is true exactly when it is in
    \<open>SUPPORTED_CHAIN_IDS\<close>.
\<close>

theorem supported_flag_derived:
  "trace (chain_emissions c) st =
     [(ChainIdNext (or_null c), st\<lparr>chainId := or_null c\<rparr>),
      (IsSupportedNetworkNext (supported_of (or_null c)),
       st\<lparr>chainId := or_null c, isSupportedNetwork := supported_of (or_null c)\<rparr>),
      (NetworkNameNext (networkName (handleChainChanged c st)), handleChainChanged c st)]
   \<and> isSupportedNetwork (handleChainChanged c st) = supported_of (chainId (handleChainChanged c st))
   \<and> ((e, s) \<in> set (trace (history_emissions acts (construct w)) (construct w))
        \<and> \<not> is_chainId_next e \<longrightarrow>
        isSupportedNetwork s = supported_of (chainId s)
        \<or> chainId s = None \<and> isSupportedNetwork s \<and> networkName s = None)
   \<and> (list_ex is_chainId_next (init_emissions w @ history_emissions acts (construct w)) \<longrightarrow>
        isSupportedNetwork (run acts (construct w)) = supported_of (chainId (run acts (construct w))))
   \<and> (\<not> list_ex is_chainId_next (init_emissions w @ history_emissions acts (construct w)) \<longrightarrow>
        chainId (run acts (construct w)) = None \<and> isSupportedNetwork (run acts (construct w))
        \<and> networkName (run acts (construct w)) = None)
   \<and> (list_ex is_chainId_next (init_emissions w)
        \<longleftrightarrow> (\<exists>eth x. w = Some eth \<and> ethereum_chainId eth = Some x \<and> x \<noteq> ''''))
   \<and> (isSupportedNetwork st = supported_of (chainId st) \<longrightarrow>
        isSupportedNetwork (run acts st) = supported_of (chainId (run acts st)))
   \<and> (chainId (run acts (construct w)) = Some x \<longrightarrow>
        isSupportedNetwork (run acts (construct w)) = (x \<in> set SUPPORTED_CHAIN_IDS))
   \<and> (chainId (run acts (construct w)) = None \<and> isSupportedNetwork (run acts (construct w)) \<longrightarrow>
        networkName (run acts (construct w)) = None)"
proof -
  let ?I = "\<lambda>s. isSupportedNetwork s = supported_of (chainId s)"
  let ?U = "\<lambda>s. chainId s = None \<and> isSupportedNetwork s \<and> networkName s = None"
  let ?all = "init_emissions w @ history_emissions acts (construct w)"
  have whole: "whole_updates ?all"
    by (simp add: whole_updates_append whole_updates_init whole_updates_history)
  have final: "run acts (construct w) = fold emit ?all initial_state"
    by (rule run_construct_emit)
  have unread0: "?U initial_state"
    by (simp add: initial_state_def)
  have read: "list_ex is_chainId_next ?all \<longrightarrow> ?I (run acts (construct w))"
    unfolding final using derived_after_chain_update [OF whole] by blast
  have unread: "\<not> list_ex is_chainId_next ?all \<longrightarrow> ?U (run acts (construct w))"
    unfolding final using unread_kept [OF whole _ unread0] by blast
  from read unread have reach: "?I (run acts (construct w)) \<or> ?U (run acts (construct w))"
    by blast
  have start: "?I (construct w) \<or> ?U (construct w)"
  proof -
    have w0: "whole_updates (init_emissions w)" by (rule whole_updates_init)
    have "construct w = fold emit (init_emissions w) initial_state"
      by (simp add: construct_def init_emit)
    then show ?thesis
      using derived_after_chain_update [OF w0, of initial_state]
        unread_kept [OF w0 _ unread0]
      by (cases "list_ex is_chainId_next (init_emissions w)") auto
  qed
  have seen: "(e, s) \<in> set (trace (history_emissions acts (construct w)) (construct w))
        \<and> \<not> is_chainId_next e \<longrightarrow> ?I s \<or> ?U s"
    using unread_or_derived_trace [OF whole_updates_history start, of e s acts] by blast
  have at_construction: "list_ex is_chainId_next (init_emissions w)
        \<longleftrightarrow> (\<exists>eth x. w = Some eth \<and> ethereum_chainId eth = Some x \<and> x \<noteq> '''')"
    by (cases w)
      (auto simp add: init_emissions_def chain_emissions_def cond_str_def or_null_def Let_def
        split: option.splits)
  have kept: "?I st \<longrightarrow> ?I (run acts st)"
    unfolding run_emit using derived_kept [OF whole_updates_history] by blast
  from reach have some: "chainId (run acts (construct w)) = Some x \<longrightarrow>
        isSupportedNetwork (run acts (construct w)) = (x \<in> set SUPPORTED_CHAIN_IDS)"
    by (auto simp add: supported_of_def)
  from reach have none: "chainId (run acts (construct w)) = None
        \<and> isSupportedNetwork (run acts (construct w)) \<longrightarrow>
        networkName (run acts (construct w)) = None"
    by (auto simp add: supported_of_def)
  from trace_chain_emissions [of c st] handleChainChanged_derived [of c st]
    seen read unread at_construction kept some none
  show ?thesis by blast
qed

text \<open>
  The amended C3 on two services. One is constructed on a wallet on Mainnet, which then
  reports the chain \<open>0x2a\<close>, before \<open>disconnect\<close> is called: a chain update has run, the
  state after the second write of the event is derived, and so is the last state. The
  other is constructed on a wallet that exposes no chain yet and sees a rejected
  \<open>connect\<close>, a \<open>disconnect\<close> and a change of account: no chain update has run, and the
  state is unread.
\<close>

theorem supported_flag_derived_witness:
  "(IsSupportedNetworkNext False,
      (construct (Some example_provider))\<lparr>chainId := Some ''0x2a'', isSupportedNetwork := False\<rparr>)
     \<in> set (trace (history_emissions [Event (ChainChanged (Some ''0x2a'')), Disconnect]
                (construct (Some example_provider)))
              (construct (Some example_provider)))
   \<and> isSupportedNetwork
       ((construct (Some example_provider))\<lparr>chainId := Some ''0x2a'', isSupportedNetwork := False\<rparr>)
     = supported_of (chainId
       ((construct (Some example_provider))\<lparr>chainId := Some ''0x2a'', isSupportedNetwork := False\<rparr>))
   \<and> list_ex is_chainId_next (init_emissions (Some example_provider))
   \<and> isSupportedNetwork (construct (Some example_provider))
     = supported_of (chainId (construct (Some example_provider)))
   \<and> isSupportedNetwork (run [Event (ChainChanged (Some ''0x2a'')), Disconnect]
        (construct (Some example_provider)))
     = supported_of (chainId (run [Event (ChainChanged (Some ''0x2a'')), Disconnect]
        (construct (Some example_provider))))
   \<and> chainId (run [Event (ChainChanged (Some ''0x2a'')), Disconnect]
        (construct (Some example_provider))) = Some ''0x2a''
   \<and> isSupportedNetwork (run [Event (ChainChanged (Some ''0x2a'')), Disconnect]
        (construct (Some example_provider))) = False
   \<and> \<not> list_ex is_chainId_next
        (init_emissions (Some unready_provider)
         @ history_emissions
             [Connect (Some accounts_rejected), Disconnect, Event (AccountsChanged (Some [''0xA'']))]
             (construct (Some unready_provider)))
   \<and> chainId (run [Connect (Some accounts_rejected), Disconnect,
                   Event (AccountsChanged (Some [''0xA'']))]
        (construct (Some unready_provider))) = None
   \<and> isSupportedNetwork (run [Connect (Some accounts_rejected), Disconnect,
                   Event (AccountsChanged (Some [''0xA'']))]
        (construct (Some unready_provider))) = True
   \<and> networkName (run [Connect (Some accounts_rejected), Disconnect,
                   Event (AccountsChanged (Some [''0xA'']))]
        (construct (Some unready_provider))) = None"
proof -
  let ?moved = "[Event (ChainChanged (Some ''0x2a'')), Disconnect]"
  let ?idle = "[Connect (Some accounts_rejected), Disconnect,
                Event (AccountsChanged (Some [''0xA'']))]"
  let ?s = "construct (Some example_provider)"
  let ?u = "construct (Some unready_provider)"
  let ?mid = "?s\<lparr>chainId := Some ''0x2a'', isSupportedNetwork := False\<rparr>"
  have seen: "(IsSupportedNetworkNext False, ?mid) \<in> set (trace (history_emissions ?moved ?s) ?s)"
    by (simp add: chain_emissions_def SUPPORTED_CHAIN_IDS_def Let_def)
  have second: "\<not> is_chainId_next (IsSupportedNetworkNext False)"
    by simp
  have read0: "list_ex is_chainId_next (init_emissions (Some example_provider))"
    by (simp add: init_emissions_def example_provider_def chain_emissions_def Let_def)
  then have read: "list_ex is_chainId_next
      (init_emissions (Some example_provider) @ history_emissions ?moved ?s)"
    by simp
  have cur: "chainId (run ?moved ?s) = Some ''0x2a''"
    by (simp add: adapter_defs)
  have no: "''0x2a'' \<notin> set SUPPORTED_CHAIN_IDS"
    by (simp add: SUPPORTED_CHAIN_IDS_def)
  have idle: "\<not> list_ex is_chainId_next
      (init_emissions (Some unready_provider) @ history_emissions ?idle ?u)"
    by (simp add: init_emissions_def unready_provider_def example_provider_def
        connect_emissions_def accounts_rejected_def deliver_emissions_def
        accounts_emissions_def)
  note thm1 = supported_flag_derived
    [of None ?s "IsSupportedNetworkNext False" ?mid ?moved "Some example_provider" "''0x2a''"]
  note thm2 = supported_flag_derived
    [of None ?s "IsSupportedNetworkNext False" ?mid "[]" "Some example_provider" "''0x2a''"]
  note thm3 = supported_flag_derived
    [of None ?u "IsSupportedNetworkNext False" ?mid ?idle "Some unready_provider" "''''"]
  from thm1 seen second have mid: "isSupportedNetwork ?mid = supported_of (chainId ?mid)"
    by auto
  from thm1 read have a: "isSupportedNetwork (run ?moved ?s) = supported_of (chainId (run ?moved ?s))"
    by blast
  from thm1 cur no have b: "isSupportedNetwork (run ?moved ?s) = False"
    by simp
  from thm2 read0 have c: "isSupportedNetwork ?s = supported_of (chainId ?s)"
    by (simp add: run_def)
  from thm3 idle have d: "chainId (run ?idle ?u) = None \<and> isSupportedNetwork (run ?idle ?u) = True
      \<and> networkName (run ?idle ?u) = None"
    by blast
  from seen mid read0 a b c cur idle d show ?thesis by simp
qed

subsection \<open>C4: the chain-update routine\<close>

text \<open>
  C4, as stated, fails at the empty string, which is present and not mapped in
  \<open>CHAIN_NAME_MAP\<close>: it is falsy, so \<open>networkName\<close> becomes \<open>null\<close> and not
  \<open>"Chain "\<close>.
\<close>

theorem chain_update_counterexample:
  "map_of CHAIN_NAME_MAP '''' = None
   \<and> networkName (handleChainChanged (Some '''') initial_state)
       \<noteq> Some (Plain (''Chain '' @ ''''))"
  by (simp add: adapter_defs)

text \<open>
  C4, as amended. For an identifier that is \<open>null\<close>, \<open>undefined\<close> or the empty string
  the routine sets \<open>chainId\<close> to \<open>null\<close>, \<open>isSupportedNetwork\<close> to false and
  \<open>networkName\<close> to \<open>null\<close>. For any other identifier \<open>x\<close> it sets \<open>chainId\<close> to \<open>x\<close>
  and \<open>isSupportedNetwork\<close> to the membership test of \<open>x\<close> against
  \<open>SUPPORTED_CHAIN_IDS\<close>, and it sets \<open>networkName\<close> to the \<open>CHAIN_NAME_MAP\<close> entry for
  \<open>x\<close> if it is mapped, and to \<open>"Chain <x>"\<close> if it is not mapped and is not the name
  of a member of \<open>Object.prototype\<close> (\<open>"0x2a"\<close> yields \<open>"Chain 0x2a"\<close>). It touches
  no other field.
\<close>

theorem chain_update_cases:
  "(c = None \<or> c = Some '''' \<longrightarrow>
      handleChainChanged c st =
        st\<lparr>chainId := None, isSupportedNetwork := False, networkName := None\<rparr>)
   \<and> (x \<noteq> '''' \<longrightarrow>
      handleChainChanged (Some x) st =
        st\<lparr>chainId := Some x, isSupportedNetwork := (x \<in> set SUPPORTED_CHAIN_IDS),
           networkName := Some (chain_name x)\<rparr>)
   \<and> (map_of CHAIN_NAME_MAP x = Some n \<longrightarrow> chain_name x = Plain n)
   \<and> (map_of CHAIN_NAME_MAP x = None \<and> x \<notin> set OBJECT_PROTOTYPE_KEYS \<longrightarrow>
        chain_name x = Plain (''Chain '' @ x))
   \<and> networkName (handleChainChanged (Some ''0x2a'') st) = Some (Plain ''Chain 0x2a'')"
proof -
  have null: "c = None \<or> c = Some '''' \<longrightarrow>
      handleChainChanged c st =
        st\<lparr>chainId := None, isSupportedNetwork := False, networkName := None\<rparr>"
    by (auto simp add: handleChainChanged_eq)
  have present: "x \<noteq> '''' \<longrightarrow>
      handleChainChanged (Some x) st =
        st\<lparr>chainId := Some x, isSupportedNetwork := (x \<in> set SUPPORTED_CHAIN_IDS),
           networkName := Some (chain_name x)\<rparr>"
    by (simp add: handleChainChanged_eq)
  have mapped: "map_of CHAIN_NAME_MAP x = Some n \<longrightarrow> chain_name x = Plain n"
    by (simp add: chain_name_mapped)
  have unmapped: "map_of CHAIN_NAME_MAP x = None \<and> x \<notin> set OBJECT_PROTOTYPE_KEYS \<longrightarrow>
        chain_name x = Plain (''Chain '' @ x)"
    by (simp add: chain_name_unmapped)
  have example: "networkName (handleChainChanged (Some ''0x2a'') st) = Some (Plain ''Chain 0x2a'')"
    by (simp add: adapter_defs)
  from null present mapped unmapped example show ?thesis by blast
qed

text \<open>
  The amended C4 at the empty string, at a supported and mapped chain, at a mapped
  chain that is not supported and at an unmapped chain.
\<close>

theorem chain_update_cases_witness:
  "handleChainChanged (Some '''') initial_state =
     initial_state\<lparr>chainId := None, isSupportedNetwork := False, networkName := None\<rparr>
   \<and> handleChainChanged (Some ''0x89'') initial_state =
     initial_state\<lparr>chainId := Some ''0x89'', isSupportedNetwork := True,
       networkName := Some (Plain ''Polygon'')\<rparr>
   \<and> handleChainChanged (Some ''0x3'') initial_state =
     initial_state\<lparr>chainId := Some ''0x3'', isSupportedNetwork := False,
       networkName := Some (Plain ''Ropsten'')\<rparr>
   \<and> handleChainChanged (Some ''0x2a'') initial_state =
     initial_state\<lparr>chainId := Some ''0x2a'', isSupportedNetwork := False,
       networkName := Some (Plain ''Chain 0x2a'')\<rparr>"
proof -
  have a: "map_of CHAIN_NAME_MAP ''0x89'' = Some ''Polygon''"
    and b: "map_of CHAIN_NAME_MAP ''0x3'' = Some ''Ropsten''"
    and c: "map_of CHAIN_NAME_MAP ''0x2a'' = None \<and> ''0x2a'' \<notin> set OBJECT_PROTOTYPE_KEYS"
    and e: "''0x89'' \<in> set SUPPORTED_CHAIN_IDS" "''0x3'' \<notin> set SUPPORTED_CHAIN_IDS"
      "''0x2a'' \<notin> set SUPPORTED_CHAIN_IDS"
    by (simp_all add: CHAIN_NAME_MAP_def OBJECT_PROTOTYPE_KEYS_def SUPPORTED_CHAIN_IDS_def)
  show ?thesis
    using chain_update_cases [of "Some ''''" initial_state "''0x89''" "''Polygon''"]
      chain_update_cases [of None initial_state "''0x3''" "''Ropsten''"]
      chain_update_cases [of None initial_state "''0x2a''" "''''"]
      a b c e
    by simp
qed

text \<open>
  The names left out above. \<open>CHAIN_NAME_MAP[cid]\<close> is a property read on an object
  literal, so for the name of a member of \<open>Object.prototype\<close> it finds the inherited
  member, which is truthy, and no \<open>"Chain <x>"\<close> is synthesized: for \<open>"constructor"\<close>
  the subject \<open>networkName$\<close>, declared to hold \<open>string | null\<close>, is handed a function.
\<close>

lemma inherited_name_emitted:
  "map_of CHAIN_NAME_MAP ''constructor'' = None
   \<and> networkName (handleChainChanged (Some ''constructor'') initial_state)
       = Some (Builtin ''constructor'')"
  by (simp add: adapter_defs)

subsection \<open>C5: the account-update routine\<close>

text \<open>
  C5, as stated, fails on a non-empty list whose first entry is the empty string: the
  entry is falsy, and \<open>address\<close> becomes \<open>null\<close>, not the entry.
\<close>

theorem account_update_counterexample:
  "address (handleAccountsChanged (Some ['''']) initial_state) \<noteq> Some ''''"
  by (simp add: adapter_defs)

text \<open>
  C5, as amended. For every account list (possibly \<open>null\<close>, \<open>undefined\<close> or empty) the
  routine sets \<open>address\<close> to the first entry if the list is non-empty and that entry is
  not the empty string, and to \<open>null\<close> otherwise, and changes no other field; an
  account-change event carrying an empty list sets \<open>address\<close> to \<open>null\<close>.
\<close>

theorem account_update_cases:
  "address (handleAccountsChanged accounts st) =
     (case accounts of
        None \<Rightarrow> None
      | Some [] \<Rightarrow> None
      | Some (a # rest) \<Rightarrow> if a = '''' then None else Some a)
   \<and> handleAccountsChanged accounts st
       = st\<lparr>address := address (handleAccountsChanged accounts st)\<rparr>
   \<and> step (Event (AccountsChanged (Some []))) st = st\<lparr>address := None\<rparr>"
  by (simp add: handleAccountsChanged_address)

subsection \<open>C6: the target of a switch\<close>

text \<open>
  C6. For any registry without an empty-string entry the target is the first entry that
  differs from the current \<open>chainId\<close>, and the first entry of the registry when none
  differs. \<open>SUPPORTED_CHAIN_IDS\<close> is such a registry, the first request
  \<open>switchToSupportedNetwork\<close> sends is the switch to that target, and with
  \<open>chainId = "0x1"\<close> the target is \<open>"0x5"\<close>.
\<close>

theorem switch_target_selection:
  "('''' \<notin> set supported \<longrightarrow>
      select_target supported current =
        (case find (\<lambda>i. Some i \<noteq> current) supported of
           Some t \<Rightarrow> Some t
         | None \<Rightarrow> first supported))
   \<and> (\<exists>rest. requests (switchToSupportedNetwork (Some eth) st) =
         Wallet_switchEthereumChain (select_target SUPPORTED_CHAIN_IDS (chainId st)) # rest)
   \<and> select_target SUPPORTED_CHAIN_IDS current =
        (case find (\<lambda>i. Some i \<noteq> current) SUPPORTED_CHAIN_IDS of
           Some t \<Rightarrow> Some t
         | None \<Rightarrow> first SUPPORTED_CHAIN_IDS)
   \<and> (chainId st = Some ''0x1'' \<longrightarrow>
        select_target SUPPORTED_CHAIN_IDS (chainId st) = Some ''0x5'')"
proof -
  have reg: "'''' \<notin> set SUPPORTED_CHAIN_IDS" by (simp add: SUPPORTED_CHAIN_IDS_def)
  show ?thesis
    using select_target_spec [of supported current] select_target_spec [OF reg, of current]
      switch_first_request [of SUPPORTED_CHAIN_IDS CHAIN_PARAMS eth st]
    by (simp add: switchToSupportedNetwork_def select_target_module)
qed

text \<open>
  C6 at a registry whose only entry is the current chain (the fallback), and at the
  module's registry with the current chain \<open>0x1\<close>.
\<close>

theorem switch_target_selection_witness:
  "'''' \<notin> set [''0x1'']
   \<and> find (\<lambda>i. Some i \<noteq> Some ''0x1'') [''0x1''] = None
   \<and> select_target [''0x1''] (Some ''0x1'') = Some ''0x1''
   \<and> chainId (construct (Some example_provider)) = Some ''0x1''
   \<and> select_target SUPPORTED_CHAIN_IDS (chainId (construct (Some example_provider))) = Some ''0x5''
   \<and> requests (switchToSupportedNetwork (Some example_provider) (construct (Some example_provider)))
       = [Wallet_switchEthereumChain (Some ''0x5'')]"
proof -
  have cur: "chainId (construct (Some example_provider)) = Some ''0x1''"
    by (simp add: adapter_defs)
  have reqs: "requests (switchToSupportedNetwork (Some example_provider)
      (construct (Some example_provider))) = [Wallet_switchEthereumChain (Some ''0x5'')]"
    by (simp add: adapter_defs)
  show ?thesis
    using switch_target_selection [of "[''0x1'']" "Some ''0x1''" example_provider
        "construct (Some example_provider)"] cur reqs
    by (simp add: first_def)
qed

subsection \<open>C7: the fallback to an add-chain request\<close>




subsection \<open>C8: \<open>disconnect\<close>\<close>

text \<open>
  C8. \<open>disconnect()\<close> sets \<open>address\<close> to \<open>null\<close>, sends no request to the provider, and
  leaves \<open>chainId\<close>, \<open>networkName\<close>, \<open>isSupportedNetwork\<close> and \<open>isMetaMaskInstalled\<close> as
  they were.
\<close>

theorem disconnect_local:
  "disconnect st = st\<lparr>address := None\<rparr>
   \<and> address (disconnect st) = None
   \<and> step Disconnect st = disconnect st
   \<and> requests_of Disconnect st = []
   \<and> chainId (disconnect st) = chainId st
   \<and> networkName (disconnect st) = networkName st
   \<and> isSupportedNetwork (disconnect st) = isSupportedNetwork st
   \<and> isMetaMaskInstalled (disconnect st) = isMetaMaskInstalled st"
  by (simp add: disconnect_def)

subsection \<open>C9: \<open>address\<close> is never the empty string\<close>

text \<open>
  C9. After construction with any provider, or none, and any history of calls and
  events, \<open>address\<close> is not the empty string; an account list whose first entry is the
  empty string sets it to \<open>null\<close>.
\<close>

theorem address_never_empty:
  "address (run acts (construct w)) \<noteq> Some ''''
   \<and> address (handleAccountsChanged (Some ('''' # rest)) st) = None"
proof
  show "address (run acts (construct w)) \<noteq> Some ''''"
  proof (rule run_invariant [where P = "\<lambda>s. address s \<noteq> Some ''''"])
    show "address (construct w) \<noteq> Some ''''"
      unfolding construct_def by (rule init_address) (simp add: initial_state_def)
  next
    fix a s
    show "address (handleAccountsChanged a s) \<noteq> Some ''''"
      by (simp add: handleAccountsChanged_address split: option.splits list.splits)
  qed simp_all
next
  show "address (handleAccountsChanged (Some ('''' # rest)) st) = None"
    by (simp add: handleAccountsChanged_address)
qed

subsection \<open>C10: the empty string as a chain identifier\<close>

text \<open>
  C10. The chain-update routine treats the empty string exactly as \<open>null\<close>: \<open>chainId\<close>
  becomes \<open>null\<close>, \<open>isSupportedNetwork\<close> false and \<open>networkName\<close> \<open>null\<close>; the empty
  string is neither stored nor used to synthesize a name.
\<close>

theorem empty_chain_is_null:
  "handleChainChanged (Some '''') st = handleChainChanged None st
   \<and> chainId (handleChainChanged (Some '''') st) = None
   \<and> isSupportedNetwork (handleChainChanged (Some '''') st) = False
   \<and> networkName (handleChainChanged (Some '''') st) = None"
  by (simp add: handleChainChanged_eq)

end
